theory Spec2Isabelle
  imports Complex_Main
begin

section \<open>Data model\<close>

text \<open>
  The program \<^verbatim>\<open>usgs_quakes_mm.py\<close> reads a GeoJSON boundary, computes its bounding
  box, and keeps the earthquake records whose epicentre lies inside the boundary.

  Numbers. Coordinates are Python numbers decoded from JSON. They are modelled as the
  elements of a linearly ordered field \<open>'a\<close>: comparison, subtraction, multiplication
  and addition are exact, and true division \<^verbatim>\<open>a / b\<close> raises
  \<^verbatim>\<open>ZeroDivisionError\<close> when \<^verbatim>\<open>b == 0\<close>. The rounding of binary floating point
  is not part of the model.

  Shapes. A vertex is a pair, as the unpacking \<^verbatim>\<open>x1, y1 = ring[i]\<close> requires; a ring
  is a list of vertices, a polygon a list of rings (exterior first, then holes), and a
  polygon set a list of polygons.
\<close>

type_synonym 'a coordinate = "'a \<times> 'a"
type_synonym 'a ring = "'a coordinate list"
type_synonym 'a polygon = "'a ring list"
type_synonym 'a multipolygon = "'a polygon list"

datatype error =
    ZeroDivisionError
  | ValueError
  | AttributeError
  | SystemExit string

section \<open>Ring containment\<close>

text \<open>Python's true division: \<^verbatim>\<open>a / b\<close>.\<close>

definition py_div :: "'a::linordered_field \<Rightarrow> 'a \<Rightarrow> error + 'a" where
  "py_div a b = (if b = 0 then Inl ZeroDivisionError else Inr (a / b))"

text \<open>
  The body of the loop of \<^verbatim>\<open>point_in_ring\<close> (lines 16 to 21) for one edge from
  \<open>(x1, y1)\<close> to \<open>(x2, y2)\<close>: the new value of \<^verbatim>\<open>inside\<close>.
  \<^verbatim>\<open>
      if ((y1 > y) != (y2 > y)):
          xinters = (x2 - x1) * (y - y1) / (y2 - y1) + x1
          if x < xinters:
              inside = not inside
  \<close>
\<close>

fun edge_step :: "'a::linordered_field \<Rightarrow> 'a \<Rightarrow> 'a coordinate \<Rightarrow> 'a coordinate \<Rightarrow> bool \<Rightarrow> error + bool" where
  "edge_step x y (x1, y1) (x2, y2) inside =
     (if (y1 > y) \<noteq> (y2 > y) then
        (case py_div ((x2 - x1) * (y - y1)) (y2 - y1) of
           Inl e \<Rightarrow> Inl e
         | Inr q \<Rightarrow>
             (let xinters = q + x1
              in if x < xinters then Inr (\<not> inside) else Inr inside))
      else Inr inside)"

text \<open>
  The loop \<^verbatim>\<open>for i in range(n)\<close> of \<^verbatim>\<open>point_in_ring\<close>, from index \<open>i\<close> on, with
  \<open>n = len(ring)\<close>. Both reads \<^verbatim>\<open>ring[i]\<close> and \<^verbatim>\<open>ring[(i + 1) % n]\<close> are in range
  whenever \<open>i < n\<close>, so neither can raise.
\<close>

function ring_loop :: "'a::linordered_field \<Rightarrow> 'a \<Rightarrow> 'a ring \<Rightarrow> nat \<Rightarrow> nat \<Rightarrow> bool \<Rightarrow> error + bool" where
  "ring_loop x y ring n i inside =
     (if i < n then
        (case edge_step x y (ring ! i) (ring ! ((i + 1) mod n)) inside of
           Inl e \<Rightarrow> Inl e
         | Inr inside' \<Rightarrow> ring_loop x y ring n (i + 1) inside')
      else Inr inside)"
  by pat_completeness auto
termination
  by (relation "measure (\<lambda>(x, y, ring, n, i, inside). n - i)") auto

declare ring_loop.simps [simp del]

definition point_in_ring :: "'a::linordered_field \<Rightarrow> 'a \<Rightarrow> 'a ring \<Rightarrow> error + bool" where
  "point_in_ring x y ring =
     (let inside = False; n = length ring
      in if n < 3 then Inr False else ring_loop x y ring n 0 inside)"

section \<open>Polygon and multi-polygon containment\<close>

text \<open>
  The loop over the holes \<^verbatim>\<open>for hole in poly[1:]\<close> of \<^verbatim>\<open>point_in_polygon\<close>: it returns
  \<^verbatim>\<open>False\<close> at the first hole that contains the point, and \<^verbatim>\<open>True\<close> when no hole does.
\<close>

fun holes_loop :: "'a::linordered_field \<Rightarrow> 'a \<Rightarrow> 'a ring list \<Rightarrow> error + bool" where
  "holes_loop x y [] = Inr True"
| "holes_loop x y (hole # rest) =
     (case point_in_ring x y hole of
        Inl e \<Rightarrow> Inl e
      | Inr inside \<Rightarrow> if inside then Inr False else holes_loop x y rest)"

text \<open>
  \<^verbatim>\<open>if not poly or not point_in_ring(x, y, poly[0]): return False\<close>; the read \<^verbatim>\<open>poly[0]\<close>
  happens only when \<^verbatim>\<open>poly\<close> is not empty, and \<^verbatim>\<open>poly[1:]\<close> is \<open>drop 1 poly\<close>.
\<close>

definition point_in_polygon :: "'a::linordered_field \<Rightarrow> 'a \<Rightarrow> 'a polygon \<Rightarrow> error + bool" where
  "point_in_polygon x y poly =
     (if poly = [] then Inr False
      else
        (case point_in_ring x y (poly ! 0) of
           Inl e \<Rightarrow> Inl e
         | Inr inside \<Rightarrow> if \<not> inside then Inr False else holes_loop x y (drop 1 poly)))"

text \<open>
  \<^verbatim>\<open>any(point_in_polygon(x, y, poly) for poly in multipoly)\<close>: the generator is consumed
  up to the first polygon that contains the point.
\<close>

fun point_in_multipolygon :: "'a::linordered_field \<Rightarrow> 'a \<Rightarrow> 'a multipolygon \<Rightarrow> error + bool" where
  "point_in_multipolygon x y [] = Inr False"
| "point_in_multipolygon x y (poly # rest) =
     (case point_in_polygon x y poly of
        Inl e \<Rightarrow> Inl e
      | Inr inside \<Rightarrow> if inside then Inr True else point_in_multipolygon x y rest)"

section \<open>Loading the boundary\<close>

text \<open>
  A key of a decoded JSON object is missing, holds \<^verbatim>\<open>null\<close> (Python's \<^verbatim>\<open>None\<close>), or
  holds a value. \<^verbatim>\<open>d.get(k)\<close> gives \<^verbatim>\<open>None\<close> in the first two cases;
  \<^verbatim>\<open>d.get(k, default)\<close> gives the default in the first case only.
\<close>

datatype 'v entry = Missing | Null | Value 'v

text \<open>
  A GeoJSON geometry object is a union tagged by its \<^verbatim>\<open>type\<close>: the coordinates of a
  \<^verbatim>\<open>Polygon\<close> are one polygon, those of a \<^verbatim>\<open>MultiPolygon\<close> a list of polygons (a
  missing \<^verbatim>\<open>coordinates\<close> key reads as \<^verbatim>\<open>[]\<close>, line 53). \<open>OtherGeometry\<close> is an
  object of any other type, or of none.
\<close>

datatype 'a geometry =
    Polygon "'a polygon"
  | MultiPolygon "'a multipolygon"
  | OtherGeometry

text \<open>
  A feature holds a geometry and anything else (\<open>properties\<close>), which the program
  never reads. The boundary's features carry an \<open>'a geometry\<close>; the earthquake
  records carry a \<open>point_geometry\<close> (below).
\<close>

record ('g, 'p) feature =
  geometry :: "'g entry"
  properties :: 'p

text \<open>The decoded boundary document: its \<^verbatim>\<open>features\<close> key may be missing.\<close>

datatype 'f document = Document (features: "'f list option")

text \<open>
  The body of the loop of lines 50 to 57, on the list \<^verbatim>\<open>polygons\<close> built so far.
  \<^verbatim>\<open>
      geom = feat.get('geometry', {})
      gtype = geom.get('type')
      coords = geom.get('coordinates', [])
      if gtype == 'Polygon':
          polygons.append(coords)
      elif gtype == 'MultiPolygon':
          polygons.extend(coords)
  \<close>
  A missing \<^verbatim>\<open>geometry\<close> key reads as the empty object, whose type is \<^verbatim>\<open>None\<close>. A
  \<^verbatim>\<open>null\<close> geometry is \<^verbatim>\<open>None\<close>, and \<^verbatim>\<open>None.get\<close> raises \<^verbatim>\<open>AttributeError\<close>.
\<close>

definition load_feature :: "'a multipolygon \<Rightarrow> ('a geometry, 'p) feature \<Rightarrow> error + 'a multipolygon" where
  "load_feature polygons feat =
     (case geometry feat of
        Missing \<Rightarrow> Inr polygons
      | Null \<Rightarrow> Inl AttributeError
      | Value geom \<Rightarrow>
          (case geom of
             Polygon coords \<Rightarrow> Inr (polygons @ [coords])
           | MultiPolygon coords \<Rightarrow> Inr (polygons @ coords)
           | OtherGeometry \<Rightarrow> Inr polygons))"

fun load_features :: "'a multipolygon \<Rightarrow> ('a geometry, 'p) feature list \<Rightarrow> error + 'a multipolygon" where
  "load_features polygons [] = Inr polygons"
| "load_features polygons (feat # rest) =
     (case load_feature polygons feat of
        Inl e \<Rightarrow> Inl e
      | Inr polygons' \<Rightarrow> load_features polygons' rest)"

text \<open>\<^verbatim>\<open>data.get('features', [])\<close>\<close>

definition features_or_empty :: "'f document \<Rightarrow> 'f list" where
  "features_or_empty data = (case features data of None \<Rightarrow> [] | Some fs \<Rightarrow> fs)"

text \<open>Lines 47 to 60: the polygon set, or \<^verbatim>\<open>SystemExit\<close> when it is empty.\<close>

definition load_polygons :: "('a geometry, 'p) feature document \<Rightarrow> error + 'a multipolygon" where
  "load_polygons data =
     (case load_features [] (features_or_empty data) of
        Inl e \<Rightarrow> Inl e
      | Inr polygons \<Rightarrow>
          if polygons = [] then Inl (SystemExit ''No polygon geometry found in admin0.json'')
          else Inr polygons)"

section \<open>Bounding box\<close>

text \<open>
  Python's \<^verbatim>\<open>min\<close> and \<^verbatim>\<open>max\<close> of an iterable: \<^verbatim>\<open>ValueError\<close> when it is empty,
  otherwise the first item is kept until a strictly smaller (larger) one is met.
\<close>

fun py_min :: "'a::linorder list \<Rightarrow> error + 'a" where
  "py_min [] = Inl ValueError"
| "py_min (v # vs) = Inr (fold (\<lambda>item m. if item < m then item else m) vs v)"

fun py_max :: "'a::linorder list \<Rightarrow> error + 'a" where
  "py_max [] = Inl ValueError"
| "py_max (v # vs) = Inr (fold (\<lambda>item m. if item > m then item else m) vs v)"

record 'a bbox =
  min_lon :: 'a
  max_lon :: 'a
  min_lat :: 'a
  max_lat :: 'a

text \<open>
  Lines 63 to 67.
  \<^verbatim>\<open>
      all_pts = [pt for poly in polygons for ring in poly for pt in ring]
      min_lon = min(pt[0] for pt in all_pts)
      max_lon = max(pt[0] for pt in all_pts)
      min_lat = min(pt[1] for pt in all_pts)
      max_lat = max(pt[1] for pt in all_pts)
  \<close>
\<close>

definition all_pts :: "'a multipolygon \<Rightarrow> 'a coordinate list" where
  "all_pts polygons = [pt. poly \<leftarrow> polygons, ring \<leftarrow> poly, pt \<leftarrow> ring]"

definition bounding_box :: "'a::linorder multipolygon \<Rightarrow> error + 'a bbox" where
  "bounding_box polygons =
     (let pts = all_pts polygons
      in case py_min (map fst pts) of
           Inl e \<Rightarrow> Inl e
         | Inr lo_x \<Rightarrow>
             (case py_max (map fst pts) of
                Inl e \<Rightarrow> Inl e
              | Inr hi_x \<Rightarrow>
                  (case py_min (map snd pts) of
                     Inl e \<Rightarrow> Inl e
                   | Inr lo_y \<Rightarrow>
                       (case py_max (map snd pts) of
                          Inl e \<Rightarrow> Inl e
                        | Inr hi_y \<Rightarrow>
                            Inr \<lparr>min_lon = lo_x, max_lon = hi_x,
                                 min_lat = lo_y, max_lat = hi_y\<rparr>))))"

text \<open>Steps 1 and 2 of \<^verbatim>\<open>main\<close>: the polygon set, then its bounding box.\<close>

definition boundary_loader ::
  "('a::linorder geometry, 'p) feature document \<Rightarrow> error + ('a multipolygon \<times> 'a bbox)" where
  "boundary_loader data =
     (case load_polygons data of
        Inl e \<Rightarrow> Inl e
      | Inr polygons \<Rightarrow>
          (case bounding_box polygons of
             Inl e \<Rightarrow> Inl e
           | Inr box \<Rightarrow> Inr (polygons, box)))"

section \<open>Filtering the fetched events\<close>

text \<open>
  The geometry of a fetched event: an object whose \<^verbatim>\<open>coordinates\<close> key, when it holds
  a value, holds a list of numbers (longitude, latitude, then anything).
\<close>

record 'a point_geometry =
  coordinates :: "'a list entry"

text \<open>
  \<^verbatim>\<open>coords = (f.get('geometry') or {}).get('coordinates') or []\<close>: a missing or
  \<^verbatim>\<open>null\<close> geometry reads as the empty object, and missing or \<^verbatim>\<open>null\<close> coordinates
  read as the empty list.
\<close>

definition candidate_coords :: "('a point_geometry, 'p) feature \<Rightarrow> 'a list" where
  "candidate_coords f =
     (case geometry f of
        Missing \<Rightarrow> []
      | Null \<Rightarrow> []
      | Value geom \<Rightarrow>
          (case coordinates geom of
             Missing \<Rightarrow> []
           | Null \<Rightarrow> []
           | Value cs \<Rightarrow> cs))"

text \<open>
  The loop of lines 110 to 114 over the events still to visit, with the list
  \<^verbatim>\<open>filtered\<close> built so far. \<^verbatim>\<open>coords[0]\<close> and \<^verbatim>\<open>coords[1]\<close> are read only when
  \<^verbatim>\<open>len(coords) >= 2\<close>.
\<close>

fun filter_loop ::
  "'a::linordered_field multipolygon \<Rightarrow> ('a point_geometry, 'p) feature list \<Rightarrow>
   ('a point_geometry, 'p) feature list \<Rightarrow> error + ('a point_geometry, 'p) feature list" where
  "filter_loop polygons [] filtered = Inr filtered"
| "filter_loop polygons (f # rest) filtered =
     (let coords = candidate_coords f
      in if length coords \<ge> 2 then
           (case point_in_multipolygon (coords ! 0) (coords ! 1) polygons of
              Inl e \<Rightarrow> Inl e
            | Inr inside \<Rightarrow>
                if inside then filter_loop polygons rest (filtered @ [f])
                else filter_loop polygons rest filtered)
         else filter_loop polygons rest filtered)"

text \<open>
  The part of \<^verbatim>\<open>out_data\<close> that depends on the filter: \<^verbatim>\<open>metadata.count\<close>,
  \<^verbatim>\<open>metadata.bboxCount\<close> and \<^verbatim>\<open>features\<close>.
\<close>

record 'f out_data =
  count :: nat
  bboxCount :: nat
  out_features :: "'f list"

definition filter_pipeline ::
  "'a::linordered_field multipolygon \<Rightarrow> ('a point_geometry, 'p) feature list \<Rightarrow>
   error + ('a point_geometry, 'p) feature out_data" where
  "filter_pipeline polygons all_features =
     (case filter_loop polygons all_features [] of
        Inl e \<Rightarrow> Inl e
      | Inr filtered \<Rightarrow>
          Inr \<lparr>count = length filtered, bboxCount = length all_features,
               out_features = filtered\<rparr>)"

section \<open>The even-odd rule, as the specification words it\<close>

text \<open>
  The edges of a ring: from each vertex \<open>v\<^sub>i\<close> to \<open>v\<^sub>(\<^sub>i\<^sub>+\<^sub>1\<^sub>)\<^sub> \<^sub>m\<^sub>o\<^sub>d\<^sub> \<^sub>n\<close>.
\<close>

definition ring_edges :: "'a ring \<Rightarrow> ('a coordinate \<times> 'a coordinate) list" where
  "ring_edges ring =
     map (\<lambda>i. (ring ! i, ring ! ((i + 1) mod length ring))) [0..<length ring]"

text \<open>
  An edge toggles the parity when its endpoints straddle \<open>y\<close> and \<open>x\<close> is left of the
  x-intercept \<open>x1 + (x2 - x1) * (y - y1) / (y2 - y1)\<close>.
\<close>

fun toggles :: "'a::linordered_field \<Rightarrow> 'a \<Rightarrow> 'a coordinate \<times> 'a coordinate \<Rightarrow> bool" where
  "toggles x y ((x1, y1), (x2, y2)) =
     (((y1 > y) \<noteq> (y2 > y)) \<and> x < x1 + (x2 - x1) * (y - y1) / (y2 - y1))"

definition even_odd :: "'a::linordered_field \<Rightarrow> 'a \<Rightarrow> 'a ring \<Rightarrow> bool" where
  "even_odd x y ring =
     fold (\<lambda>e parity. if toggles x y e then \<not> parity else parity) (ring_edges ring) False"

text \<open>Every vertex of every ring of every polygon of a polygon set.\<close>

definition vertices :: "'a multipolygon \<Rightarrow> 'a coordinate set" where
  "vertices polygons = (\<Union>poly \<in> set polygons. \<Union>ring \<in> set poly. set ring)"

text \<open>
  What a boundary feature contributes to the polygon set: the coordinates of a
  \<^verbatim>\<open>Polygon\<close> as one polygon, each polygon of the coordinates of a \<^verbatim>\<open>MultiPolygon\<close>,
  and nothing otherwise.
\<close>

definition feature_polygons :: "('a geometry, 'p) feature \<Rightarrow> 'a multipolygon" where
  "feature_polygons feat =
     (case geometry feat of
        Value (Polygon coords) \<Rightarrow> [coords]
      | Value (MultiPolygon coords) \<Rightarrow> coords
      | _ \<Rightarrow> [])"

text \<open>
  The candidates the filter is to keep: the coordinate array has at least two elements
  and the point (first, second) is contained in the polygon set.
\<close>

definition in_boundary ::
  "'a::linordered_field multipolygon \<Rightarrow> ('a point_geometry, 'p) feature \<Rightarrow> bool" where
  "in_boundary polygons f =
     (2 \<le> length (candidate_coords f) \<and>
      point_in_multipolygon (candidate_coords f ! 0) (candidate_coords f ! 1) polygons
        = Inr True)"

section \<open>Properties of ring containment\<close>

lemma edge_step_toggles:
  "edge_step x y p q inside = Inr (if toggles x y (p, q) then \<not> inside else inside)"
  by (cases p; cases q) (auto simp: py_div_def add.commute)

lemma ring_loop_fold:
  "ring_loop x y ring n i inside =
     Inr (fold (\<lambda>e parity. if toggles x y e then \<not> parity else parity)
            (map (\<lambda>j. (ring ! j, ring ! ((j + 1) mod n))) [i..<n]) inside)"
proof (induction x y ring n i inside rule: ring_loop.induct)
  case (1 x y ring n i inside)
  show ?case
  proof (cases "i < n")
    case True
    then have "[i..<n] = i # [i + 1..<n]"
      by (simp add: upt_conv_Cons)
    with True 1 show ?thesis
      by (subst ring_loop.simps) (simp add: edge_step_toggles)
  next
    case False
    then show ?thesis
      by (subst ring_loop.simps) simp
  qed
qed

lemma point_in_ring_total: "\<exists>b. point_in_ring x y ring = Inr b"
  by (cases "length ring < 3") (auto simp: point_in_ring_def Let_def ring_loop_fold)

text \<open>
  C1. For a ring of at least three vertices, \<^verbatim>\<open>point_in_ring\<close> returns the even-odd
  ray-casting result: the parity starts at false, every edge
  \<open>(ring[i], ring[(i+1) mod n])\<close> is visited in order, the parity is toggled exactly
  when \<open>(y1 > y) \<noteq> (y2 > y)\<close> and \<open>x < x1 + (x2-x1)*(y-y1)/(y2-y1)\<close>, and the final parity
  is the value returned.
\<close>

theorem point_in_ring_even_odd:
  "3 \<le> length ring \<Longrightarrow> point_in_ring x y ring = Inr (even_odd x y ring)"
  by (simp add: point_in_ring_def even_odd_def ring_edges_def ring_loop_fold Let_def)

theorem point_in_ring_even_odd_witness:
  "point_in_ring 2 2 [(0, 0), (4, 0), (4, 4), (0 :: rat, 4 :: rat)]
     = Inr (even_odd 2 2 [(0, 0), (4, 0), (4, 4), (0 :: rat, 4 :: rat)])
   \<and> even_odd 2 2 [(0, 0), (4, 0), (4, 4), (0 :: rat, 4 :: rat)]
   \<and> \<not> even_odd 5 5 [(0, 0), (4, 0), (4, 4), (0 :: rat, 4 :: rat)]"
proof -
  have len: "3 \<le> length [(0, 0), (4, 0), (4, 4), (0 :: rat, 4 :: rat)]"
    by simp
  have "even_odd 2 2 [(0, 0), (4, 0), (4, 4), (0 :: rat, 4 :: rat)]"
    and "\<not> even_odd 5 5 [(0, 0), (4, 0), (4, 4), (0 :: rat, 4 :: rat)]"
    by (simp_all add: even_odd_def ring_edges_def upt_conv_Cons)
  with point_in_ring_even_odd [OF len, of 2 2] show ?thesis
    by simp
qed

text \<open>
  C5. A ring with fewer than three vertices contains no point: \<^verbatim>\<open>point_in_ring\<close>
  returns \<^verbatim>\<open>False\<close> for every point.
\<close>

theorem point_in_ring_degenerate:
  "length ring < 3 \<Longrightarrow> point_in_ring x y ring = Inr False"
  by (simp add: point_in_ring_def)

theorem point_in_ring_degenerate_witness:
  "point_in_ring 2 2 [(0 :: rat, 0 :: rat), (4, 0)] = Inr False"
proof -
  have "length [(0 :: rat, 0 :: rat), (4, 0)] < 3"
    by simp
  then show ?thesis
    by (rule point_in_ring_degenerate)
qed

text \<open>
  C6 (the division by \<open>y2 - y1\<close> can never be a division by zero) is not stated in
  this theory. In the exact arithmetic of the model the straddle test
  \<open>(y1 > y) \<noteq> (y2 > y)\<close> forces \<open>y2 - y1 \<noteq> 0\<close>, which is why \<open>point_in_ring\<close> always
  returns a boolean above. In Python the subtraction is a floating-point operation as
  soon as one operand is a float: the integer \<open>9007199254740993\<close> and the float
  \<open>9007199254740992.0\<close> compare as different, yet their difference is \<open>0.0\<close>. Whether
  the divisor can vanish is therefore a property of the rounding, which the model
  leaves out.
\<close>

section \<open>Properties of polygon and multi-polygon containment\<close>

lemma holes_loop_none:
  "holes_loop x y holes = Inr (\<not> (\<exists>hole \<in> set holes. point_in_ring x y hole = Inr True))"
proof (induction holes)
  case Nil
  show ?case by simp
next
  case (Cons hole rest)
  obtain b where "point_in_ring x y hole = Inr b"
    using point_in_ring_total by blast
  with Cons show ?case by (cases b) auto
qed

lemma point_in_polygon_cases:
  "point_in_polygon x y poly =
     Inr (if poly = [] \<or> point_in_ring x y (poly ! 0) \<noteq> Inr True then False
          else if \<exists>hole \<in> set (drop 1 poly). point_in_ring x y hole = Inr True then False
          else True)"
proof (cases "poly = []")
  case True
  then show ?thesis by (simp add: point_in_polygon_def)
next
  case False
  obtain b where "point_in_ring x y (poly ! 0) = Inr b"
    using point_in_ring_total by blast
  with False show ?thesis
    by (cases b) (simp_all add: point_in_polygon_def holes_loop_none)
qed

lemma point_in_polygon_total: "\<exists>b. point_in_polygon x y poly = Inr b"
  by (simp add: point_in_polygon_cases)

lemma point_in_multipolygon_any:
  "point_in_multipolygon x y multipoly =
     Inr (\<exists>poly \<in> set multipoly. point_in_polygon x y poly = Inr True)"
proof (induction multipoly)
  case Nil
  show ?case by simp
next
  case (Cons poly rest)
  obtain b where "point_in_polygon x y poly = Inr b"
    using point_in_polygon_total by blast
  with Cons show ?case by (cases b) auto
qed

lemma point_in_multipolygon_total: "\<exists>b. point_in_multipolygon x y multipoly = Inr b"
  by (simp add: point_in_multipolygon_any)

text \<open>
  C2. \<^verbatim>\<open>point_in_polygon\<close> returns false when the polygon has no rings or the point is
  not contained in ring 0 (the exterior); otherwise false when the point is contained
  in one of the rings after the first (the holes); otherwise true. For the square
  exterior \<open>[(0,0),(10,0),(10,10),(0,10)]\<close> with the hole \<open>[(4,4),(6,4),(6,6),(4,6)]\<close>,
  the point (5,5) gives false, (1,1) gives true and (5,9) gives true.
\<close>

theorem point_in_polygon_exterior_minus_holes:
  "point_in_polygon x y poly =
     Inr (if poly = [] \<or> point_in_ring x y (poly ! 0) \<noteq> Inr True then False
          else if \<exists>hole \<in> set (drop 1 poly). point_in_ring x y hole = Inr True then False
          else True)
   \<and> point_in_polygon 5 5 [[(0, 0), (10, 0), (10, 10), (0 :: rat, 10 :: rat)],
        [(4, 4), (6, 4), (6, 6), (4, 6)]] = Inr False
   \<and> point_in_polygon 1 1 [[(0, 0), (10, 0), (10, 10), (0 :: rat, 10 :: rat)],
        [(4, 4), (6, 4), (6, 6), (4, 6)]] = Inr True
   \<and> point_in_polygon 5 9 [[(0, 0), (10, 0), (10, 10), (0 :: rat, 10 :: rat)],
        [(4, 4), (6, 4), (6, 6), (4, 6)]] = Inr True"
proof -
  have "point_in_polygon 5 5 [[(0, 0), (10, 0), (10, 10), (0 :: rat, 10 :: rat)],
        [(4, 4), (6, 4), (6, 6), (4, 6)]] = Inr False"
    by (simp add: point_in_polygon_def point_in_ring_def ring_loop.simps py_div_def)
  moreover have "point_in_polygon 1 1 [[(0, 0), (10, 0), (10, 10), (0 :: rat, 10 :: rat)],
        [(4, 4), (6, 4), (6, 6), (4, 6)]] = Inr True"
    by (simp add: point_in_polygon_def point_in_ring_def ring_loop.simps py_div_def)
  moreover have "point_in_polygon 5 9 [[(0, 0), (10, 0), (10, 10), (0 :: rat, 10 :: rat)],
        [(4, 4), (6, 4), (6, 6), (4, 6)]] = Inr True"
    by (simp add: point_in_polygon_def point_in_ring_def ring_loop.simps py_div_def)
  ultimately show ?thesis
    using point_in_polygon_cases [of x y poly] by blast
qed

theorem point_in_polygon_exterior_minus_holes_witness:
  "point_in_ring 5 5 [(0, 0), (10, 0), (10, 10), (0 :: rat, 10 :: rat)] = Inr True
   \<and> point_in_ring 5 5 [(4, 4), (6, 4), (6, 6), (4 :: rat, 6 :: rat)] = Inr True
   \<and> point_in_polygon 5 5 [[(0, 0), (10, 0), (10, 10), (0 :: rat, 10 :: rat)],
        [(4, 4), (6, 4), (6, 6), (4, 6)]] = Inr False
   \<and> point_in_polygon 5 5 ([] :: rat polygon) = Inr False"
proof -
  have "point_in_ring 5 5 [(0, 0), (10, 0), (10, 10), (0 :: rat, 10 :: rat)] = Inr True"
    and "point_in_ring 5 5 [(4, 4), (6, 4), (6, 6), (4 :: rat, 6 :: rat)] = Inr True"
    by (simp_all add: point_in_ring_def ring_loop.simps py_div_def)
  then show ?thesis
    using point_in_polygon_exterior_minus_holes [of 5 5
        "[[(0, 0), (10, 0), (10, 10), (0 :: rat, 10 :: rat)],
          [(4, 4), (6, 4), (6, 6), (4, 6)]]"]
      point_in_polygon_exterior_minus_holes [of 5 5 "[] :: rat polygon"]
    by simp
qed

text \<open>
  C3. \<^verbatim>\<open>point_in_multipolygon\<close> returns true exactly when \<^verbatim>\<open>point_in_polygon\<close>
  returns true for at least one polygon of the set. In particular a point inside two
  (overlapping) polygons gives true.
\<close>

theorem point_in_multipolygon_or:
  "point_in_multipolygon x y multipoly =
     Inr (\<exists>poly \<in> set multipoly. point_in_polygon x y poly = Inr True)
   \<and> (point_in_polygon x y p = Inr True \<and> point_in_polygon x y q = Inr True \<longrightarrow>
        point_in_multipolygon x y [p, q] = Inr True)"
  by (simp add: point_in_multipolygon_any)

theorem point_in_multipolygon_or_witness:
  "point_in_polygon 3 3 [[(0, 0), (4, 0), (4, 4), (0 :: rat, 4 :: rat)]] = Inr True
   \<and> point_in_polygon 3 3 [[(2, 2), (6, 2), (6, 6), (2 :: rat, 6 :: rat)]] = Inr True
   \<and> point_in_multipolygon 3 3 [[[(0, 0), (4, 0), (4, 4), (0 :: rat, 4 :: rat)]],
        [[(2, 2), (6, 2), (6, 6), (2, 6)]]] = Inr True
   \<and> point_in_multipolygon 1 1 [[[(0, 0), (4, 0), (4, 4), (0 :: rat, 4 :: rat)]],
        [[(20, 0), (24, 0), (24, 4), (20, 4)]]] = Inr True
   \<and> point_in_multipolygon 21 1 [[[(0, 0), (4, 0), (4, 4), (0 :: rat, 4 :: rat)]],
        [[(20, 0), (24, 0), (24, 4), (20, 4)]]] = Inr True
   \<and> point_in_multipolygon 10 1 [[[(0, 0), (4, 0), (4, 4), (0 :: rat, 4 :: rat)]],
        [[(20, 0), (24, 0), (24, 4), (20, 4)]]] = Inr False"
proof -
  have in_p: "point_in_polygon 3 3 [[(0, 0), (4, 0), (4, 4), (0 :: rat, 4 :: rat)]] = Inr True"
    and in_q: "point_in_polygon 3 3 [[(2, 2), (6, 2), (6, 6), (2 :: rat, 6 :: rat)]] = Inr True"
    by (simp_all add: point_in_polygon_def point_in_ring_def ring_loop.simps py_div_def)
  have "point_in_polygon 1 1 [[(0, 0), (4, 0), (4, 4), (0 :: rat, 4 :: rat)]] = Inr True"
    and "point_in_polygon 21 1 [[(0, 0), (4, 0), (4, 4), (0 :: rat, 4 :: rat)]] = Inr False"
    and "point_in_polygon 21 1 [[(20, 0), (24, 0), (24, 4), (20 :: rat, 4 :: rat)]] = Inr True"
    and "point_in_polygon 10 1 [[(0, 0), (4, 0), (4, 4), (0 :: rat, 4 :: rat)]] = Inr False"
    and "point_in_polygon 10 1 [[(20, 0), (24, 0), (24, 4), (20 :: rat, 4 :: rat)]] = Inr False"
    by (simp_all add: point_in_polygon_def point_in_ring_def ring_loop.simps py_div_def)
  with in_p in_q show ?thesis
    using point_in_multipolygon_or [of 3 3 "[]"
        "[[(0, 0), (4, 0), (4, 4), (0, 4)]]" "[[(2, 2), (6, 2), (6, 6), (2, 6)]]"]
      point_in_multipolygon_or [of 1 1
        "[[[(0, 0), (4, 0), (4, 4), (0, 4)]], [[(20, 0), (24, 0), (24, 4), (20, 4)]]]"]
      point_in_multipolygon_or [of 21 1
        "[[[(0, 0), (4, 0), (4, 4), (0, 4)]], [[(20, 0), (24, 0), (24, 4), (20, 4)]]]"]
      point_in_multipolygon_or [of 10 1
        "[[[(0, 0), (4, 0), (4, 4), (0, 4)]], [[(20, 0), (24, 0), (24, 4), (20, 4)]]]"]
    by simp
qed

section \<open>Properties of the filter\<close>

lemma filter_loop_filter:
  "filter_loop polygons fs filtered = Inr (filtered @ filter (in_boundary polygons) fs)"
proof (induction fs arbitrary: filtered)
  case Nil
  show ?case by simp
next
  case (Cons f rest)
  show ?case
  proof (cases "2 \<le> length (candidate_coords f)")
    case True
    obtain b where
      "point_in_multipolygon (candidate_coords f ! 0) (candidate_coords f ! 1) polygons = Inr b"
      using point_in_multipolygon_total by blast
    with True Cons show ?thesis
      by (cases b) (simp_all add: in_boundary_def Let_def)
  next
    case False
    with Cons show ?thesis
      by (simp add: in_boundary_def Let_def)
  qed
qed

lemma filter_pipeline_filter:
  "filter_pipeline polygons candidates =
     Inr \<lparr>count = length (filter (in_boundary polygons) candidates),
          bboxCount = length candidates,
          out_features = filter (in_boundary polygons) candidates\<rparr>"
  by (simp add: filter_pipeline_def filter_loop_filter)

text \<open>
  C4. The kept output of the filter is the subsequence, in input order and with every
  record as it came in, of the candidates whose coordinate array has at least two
  elements and whose point (first, second) is contained in the polygon set; a candidate
  with fewer than two coordinate elements is left out and raises nothing;
  \<^verbatim>\<open>bboxCount\<close> is the length of the input and \<^verbatim>\<open>count\<close> the length of the output.
\<close>

theorem filter_pipeline_subsequence:
  "filter_pipeline polygons candidates =
     Inr \<lparr>count = length (filter (in_boundary polygons) candidates),
          bboxCount = length candidates,
          out_features = filter (in_boundary polygons) candidates\<rparr>
   \<and> (length (candidate_coords f) < 2 \<longrightarrow> \<not> in_boundary polygons f)"
  by (simp add: filter_pipeline_filter in_boundary_def)

theorem filter_pipeline_subsequence_witness:
  "filter_pipeline [[[(0, 0), (4, 0), (4, 4), (0 :: rat, 4 :: rat)]]]
     [\<lparr>geometry = Value \<lparr>coordinates = Value [2, 2, 10]\<rparr>, properties = ''a''\<rparr>,
      \<lparr>geometry = Value \<lparr>coordinates = Value [5, 5, 3]\<rparr>, properties = ''b''\<rparr>,
      \<lparr>geometry = Value \<lparr>coordinates = Value [1]\<rparr>, properties = ''c''\<rparr>,
      \<lparr>geometry = Value \<lparr>coordinates = Value [3, 1]\<rparr>, properties = ''d''\<rparr>]
   = Inr \<lparr>count = 2, bboxCount = 4,
       out_features =
         [\<lparr>geometry = Value \<lparr>coordinates = Value [2, 2, 10]\<rparr>, properties = ''a''\<rparr>,
          \<lparr>geometry = Value \<lparr>coordinates = Value [3, 1]\<rparr>, properties = ''d''\<rparr>]\<rparr>"
proof -
  let ?P = "[[[(0, 0), (4, 0), (4, 4), (0 :: rat, 4 :: rat)]]]"
  let ?a = "\<lparr>geometry = Value \<lparr>coordinates = Value [2, 2, 10 :: rat]\<rparr>, properties = ''a''\<rparr>"
  let ?b = "\<lparr>geometry = Value \<lparr>coordinates = Value [5, 5, 3 :: rat]\<rparr>, properties = ''b''\<rparr>"
  let ?c = "\<lparr>geometry = Value \<lparr>coordinates = Value [1 :: rat]\<rparr>, properties = ''c''\<rparr>"
  let ?d = "\<lparr>geometry = Value \<lparr>coordinates = Value [3, 1 :: rat]\<rparr>, properties = ''d''\<rparr>"
  have a: "in_boundary ?P ?a" and b: "\<not> in_boundary ?P ?b" and d: "in_boundary ?P ?d"
    by (simp_all add: in_boundary_def candidate_coords_def point_in_polygon_def
        point_in_ring_def ring_loop.simps py_div_def)
  have c: "length (candidate_coords ?c) < 2"
    by (simp add: candidate_coords_def)
  from filter_pipeline_subsequence [of ?P "[?a, ?b, ?c, ?d]" ?c]
  have pipeline: "filter_pipeline ?P [?a, ?b, ?c, ?d] =
      Inr \<lparr>count = length (filter (in_boundary ?P) [?a, ?b, ?c, ?d]), bboxCount = 4,
           out_features = filter (in_boundary ?P) [?a, ?b, ?c, ?d]\<rparr>"
    and short: "\<not> in_boundary ?P ?c"
    using c by simp_all
  show ?thesis
    unfolding pipeline using a b short d by simp
qed

text \<open>
  C10. A candidate whose \<^verbatim>\<open>geometry\<close> key is missing or \<^verbatim>\<open>null\<close> has no coordinates:
  it is left out of the kept output, raises nothing, and still counts in
  \<^verbatim>\<open>bboxCount\<close>; the result is the one obtained with, in its place, any candidate
  whose coordinate array has fewer than two elements.
\<close>

theorem missing_geometry_excluded:
  assumes "geometry f = Missing \<or> geometry f = Null"
  shows "candidate_coords f = []
   \<and> filter_pipeline polygons (pre @ f # post) =
       Inr \<lparr>count = length (filter (in_boundary polygons) (pre @ post)),
            bboxCount = Suc (length (pre @ post)),
            out_features = filter (in_boundary polygons) (pre @ post)\<rparr>
   \<and> (length (candidate_coords g) < 2 \<longrightarrow>
        filter_pipeline polygons (pre @ g # post) = filter_pipeline polygons (pre @ f # post))"
proof -
  from assms have coords: "candidate_coords f = []"
    by (auto simp: candidate_coords_def)
  then have "\<not> in_boundary polygons f"
    by (simp add: in_boundary_def)
  moreover have "\<not> in_boundary polygons g" if "length (candidate_coords g) < 2"
    using that by (simp add: in_boundary_def)
  ultimately show ?thesis
    using coords by (simp add: filter_pipeline_filter)
qed

theorem missing_geometry_excluded_witness:
  "filter_pipeline [[[(0, 0), (4, 0), (4, 4), (0 :: rat, 4 :: rat)]]]
     [\<lparr>geometry = Value \<lparr>coordinates = Value [2, 2, 10]\<rparr>, properties = ''a''\<rparr>,
      \<lparr>geometry = Null, properties = ''b''\<rparr>,
      \<lparr>geometry = Value \<lparr>coordinates = Value [3, 1]\<rparr>, properties = ''c''\<rparr>]
   = Inr \<lparr>count = 2, bboxCount = 3,
       out_features =
         [\<lparr>geometry = Value \<lparr>coordinates = Value [2, 2, 10]\<rparr>, properties = ''a''\<rparr>,
          \<lparr>geometry = Value \<lparr>coordinates = Value [3, 1]\<rparr>, properties = ''c''\<rparr>]\<rparr>
   \<and> filter_pipeline [[[(0, 0), (4, 0), (4, 4), (0 :: rat, 4 :: rat)]]]
     [\<lparr>geometry = Value \<lparr>coordinates = Value [2, 2, 10]\<rparr>, properties = ''a''\<rparr>,
      \<lparr>geometry = Missing, properties = ''b''\<rparr>,
      \<lparr>geometry = Value \<lparr>coordinates = Value [3, 1]\<rparr>, properties = ''c''\<rparr>]
   = Inr \<lparr>count = 2, bboxCount = 3,
       out_features =
         [\<lparr>geometry = Value \<lparr>coordinates = Value [2, 2, 10]\<rparr>, properties = ''a''\<rparr>,
          \<lparr>geometry = Value \<lparr>coordinates = Value [3, 1]\<rparr>, properties = ''c''\<rparr>]\<rparr>"
proof -
  let ?P = "[[[(0, 0), (4, 0), (4, 4), (0 :: rat, 4 :: rat)]]]"
  let ?a = "\<lparr>geometry = Value \<lparr>coordinates = Value [2, 2, 10 :: rat]\<rparr>, properties = ''a''\<rparr>"
  let ?n = "\<lparr>geometry = Null :: rat point_geometry entry, properties = ''b''\<rparr>"
  let ?m = "\<lparr>geometry = Missing :: rat point_geometry entry, properties = ''b''\<rparr>"
  let ?c = "\<lparr>geometry = Value \<lparr>coordinates = Value [3, 1 :: rat]\<rparr>, properties = ''c''\<rparr>"
  have a: "in_boundary ?P ?a" and c: "in_boundary ?P ?c"
    by (simp_all add: in_boundary_def candidate_coords_def point_in_polygon_def
        point_in_ring_def ring_loop.simps py_div_def)
  have n: "geometry ?n = Missing \<or> geometry ?n = Null"
    and m: "geometry ?m = Missing \<or> geometry ?m = Null"
    by simp_all
  have "filter_pipeline ?P ([?a] @ ?n # [?c]) =
      Inr \<lparr>count = length (filter (in_boundary ?P) ([?a] @ [?c])),
           bboxCount = Suc (length ([?a] @ [?c])),
           out_features = filter (in_boundary ?P) ([?a] @ [?c])\<rparr>"
    using missing_geometry_excluded [OF n, of ?P "[?a]" "[?c]" ?n] by blast
  moreover have "filter_pipeline ?P ([?a] @ ?m # [?c]) =
      Inr \<lparr>count = length (filter (in_boundary ?P) ([?a] @ [?c])),
           bboxCount = Suc (length ([?a] @ [?c])),
           out_features = filter (in_boundary ?P) ([?a] @ [?c])\<rparr>"
    using missing_geometry_excluded [OF m, of ?P "[?a]" "[?c]" ?m] by blast
  ultimately show ?thesis
    using a c by simp
qed

section \<open>Properties of the bounding box\<close>

lemma py_min_Min: "vs \<noteq> [] \<Longrightarrow> py_min vs = Inr (Min (set vs))"
proof (cases vs)
  case Nil
  assume "vs \<noteq> []"
  with Nil show ?thesis by simp
next
  case (Cons v rest)
  have "(\<lambda>item m. if item < m then item else m) = (min :: 'a \<Rightarrow> 'a \<Rightarrow> 'a)"
    by (auto simp: fun_eq_iff min_def)
  with Cons show ?thesis
    using Min.set_eq_fold [of v rest] by simp
qed

lemma py_max_Max: "vs \<noteq> [] \<Longrightarrow> py_max vs = Inr (Max (set vs))"
proof (cases vs)
  case Nil
  assume "vs \<noteq> []"
  with Nil show ?thesis by simp
next
  case (Cons v rest)
  have "(\<lambda>item m. if item > m then item else m) = (max :: 'a \<Rightarrow> 'a \<Rightarrow> 'a)"
    by (auto simp: fun_eq_iff max_def)
  with Cons show ?thesis
    using Max.set_eq_fold [of v rest] by simp
qed

lemma set_all_pts: "set (all_pts polygons) = vertices polygons"
  by (auto simp: vertices_def all_pts_def)

lemma bounding_box_no_vertex:
  assumes "vertices polygons = {}"
  shows "bounding_box polygons = Inl ValueError"
proof -
  from assms have "all_pts polygons = []"
    unfolding set_all_pts [symmetric] by (metis set_empty)
  then show ?thesis
    by (simp add: bounding_box_def Let_def)
qed

text \<open>
  C7. When the polygon set has at least one vertex, the bounding box is the minimum and
  the maximum of the x coordinates and the minimum and the maximum of the y coordinates
  over every vertex of every ring of every polygon.
\<close>

theorem bounding_box_envelope:
  assumes "vertices polygons \<noteq> {}"
  shows "bounding_box polygons =
     Inr \<lparr>min_lon = Min (fst ` vertices polygons), max_lon = Max (fst ` vertices polygons),
          min_lat = Min (snd ` vertices polygons), max_lat = Max (snd ` vertices polygons)\<rparr>"
proof -
  let ?pts = "all_pts polygons"
  from assms have "?pts \<noteq> []"
    unfolding set_all_pts [symmetric] by (metis set_empty)
  then have "map fst ?pts \<noteq> []" and "map snd ?pts \<noteq> []"
    by simp_all
  then have "py_min (map fst ?pts) = Inr (Min (fst ` vertices polygons))"
    and "py_max (map fst ?pts) = Inr (Max (fst ` vertices polygons))"
    and "py_min (map snd ?pts) = Inr (Min (snd ` vertices polygons))"
    and "py_max (map snd ?pts) = Inr (Max (snd ` vertices polygons))"
    by (simp_all add: py_min_Min py_max_Max set_all_pts del: map_is_Nil_conv)
  then show ?thesis
    by (simp add: bounding_box_def Let_def)
qed

theorem bounding_box_envelope_witness:
  "bounding_box [[[(0, 0), (10, 0), (10, 10), (0 :: rat, 10 :: rat)]],
       [[(20, 5), (30, 5), (30, 15), (20, 15)]]]
   = Inr \<lparr>min_lon = 0, max_lon = 30, min_lat = 0, max_lat = 15\<rparr>"
proof -
  let ?P = "[[[(0, 0), (10, 0), (10, 10), (0 :: rat, 10 :: rat)]],
       [[(20, 5), (30, 5), (30, 15), (20, 15)]]]"
  have v: "vertices ?P =
      {(0, 0), (10, 0), (10, 10), (0, 10), (20, 5), (30, 5), (30, 15), (20, 15)}"
    by (simp add: vertices_def insert_commute)
  then have "vertices ?P \<noteq> {}"
    by simp
  from bounding_box_envelope [OF this] show ?thesis
    unfolding v by simp
qed

section \<open>Properties of the boundary loader\<close>

lemma load_feature_append:
  "geometry feat \<noteq> Null \<Longrightarrow>
   load_feature polygons feat = Inr (polygons @ feature_polygons feat)"
  by (simp add: load_feature_def feature_polygons_def split: entry.splits geometry.splits)

lemma load_features_concat:
  "\<forall>feat \<in> set fs. geometry feat \<noteq> Null \<Longrightarrow>
   load_features polygons fs = Inr (polygons @ concat (map feature_polygons fs))"
  by (induction fs arbitrary: polygons) (simp_all add: load_feature_append)

lemma load_features_null:
  "\<exists>feat \<in> set fs. geometry feat = Null \<Longrightarrow>
   load_features polygons fs = Inl AttributeError"
proof (induction fs arbitrary: polygons)
  case Nil
  then show ?case by simp
next
  case (Cons feat rest)
  show ?case
  proof (cases "geometry feat = Null")
    case True
    then show ?thesis by (simp add: load_feature_def)
  next
    case False
    with Cons.prems have "\<exists>feat \<in> set rest. geometry feat = Null"
      by auto
    with Cons.IH False show ?thesis
      by (simp add: load_feature_append)
  qed
qed

lemma load_polygons_nonempty: "load_polygons data = Inr polygons \<Longrightarrow> polygons \<noteq> []"
  by (auto simp: load_polygons_def split: sum.splits if_splits)

text \<open>
  A feature whose \<^verbatim>\<open>geometry\<close> is \<^verbatim>\<open>null\<close> makes line 52 raise
  \<^verbatim>\<open>AttributeError\<close>, whatever the other features hold: the default of
  \<^verbatim>\<open>feat.get('geometry', {})\<close> applies to a missing key only.
\<close>

lemma load_polygons_null_geometry:
  "\<exists>feat \<in> set (features_or_empty data). geometry feat = Null \<Longrightarrow>
   load_polygons data = Inl AttributeError"
  by (simp add: load_polygons_def load_features_null)

text \<open>
  When no feature has a \<^verbatim>\<open>null\<close> geometry, the loader builds the polygon set by
  appending the coordinates of each \<^verbatim>\<open>Polygon\<close> feature as one polygon and each polygon
  of the coordinates of each \<^verbatim>\<open>MultiPolygon\<close> feature, in document order, and passes
  over every other feature without raising; when the resulting set is empty it stops
  with \<^verbatim>\<open>SystemExit('No polygon geometry found in admin0.json')\<close> and nothing further
  is computed.
\<close>

lemma load_polygons_collects:
  assumes "\<forall>feat \<in> set (features_or_empty data). geometry feat \<noteq> Null"
  shows "load_polygons data =
     (if concat (map feature_polygons (features_or_empty data)) = []
      then Inl (SystemExit ''No polygon geometry found in admin0.json'')
      else Inr (concat (map feature_polygons (features_or_empty data))))
   \<and> (concat (map feature_polygons (features_or_empty data)) = [] \<longrightarrow>
        boundary_loader data = Inl (SystemExit ''No polygon geometry found in admin0.json''))"
  using assms by (simp add: load_polygons_def boundary_loader_def load_features_concat)

lemma load_polygons_collects_example:
  "load_polygons (Document (Some
     [\<lparr>geometry = Value OtherGeometry, properties = ()\<rparr>,
      \<lparr>geometry = Value (Polygon [[(0, 0), (4, 0), (4, 4), (0 :: rat, 4 :: rat)]]),
       properties = ()\<rparr>,
      \<lparr>geometry = Missing, properties = ()\<rparr>,
      \<lparr>geometry = Value (MultiPolygon [[[(5, 5), (6, 5), (6, 6)]], [[(7, 7), (8, 7), (8, 8)]]]),
       properties = ()\<rparr>]))
   = Inr [[[(0, 0), (4, 0), (4, 4), (0, 4)]],
          [[(5, 5), (6, 5), (6, 6)]], [[(7, 7), (8, 7), (8, 8)]]]
   \<and> boundary_loader (Document (Some
     [\<lparr>geometry = Value (OtherGeometry :: rat geometry), properties = ()\<rparr>,
      \<lparr>geometry = Missing, properties = ()\<rparr>]))
   = Inl (SystemExit ''No polygon geometry found in admin0.json'')"
proof -
  let ?d1 = "Document (Some
     [\<lparr>geometry = Value OtherGeometry, properties = ()\<rparr>,
      \<lparr>geometry = Value (Polygon [[(0, 0), (4, 0), (4, 4), (0 :: rat, 4 :: rat)]]),
       properties = ()\<rparr>,
      \<lparr>geometry = Missing, properties = ()\<rparr>,
      \<lparr>geometry = Value (MultiPolygon [[[(5, 5), (6, 5), (6, 6)]], [[(7, 7), (8, 7), (8, 8)]]]),
       properties = ()\<rparr>])"
  let ?d2 = "Document (Some
     [\<lparr>geometry = Value (OtherGeometry :: rat geometry), properties = ()\<rparr>,
      \<lparr>geometry = Missing, properties = ()\<rparr>])"
  have h1: "\<forall>feat \<in> set (features_or_empty ?d1). geometry feat \<noteq> Null"
    and h2: "\<forall>feat \<in> set (features_or_empty ?d2). geometry feat \<noteq> Null"
    by (simp_all add: features_or_empty_def)
  show ?thesis
    using load_polygons_collects [OF h1] load_polygons_collects [OF h2]
    by (simp add: features_or_empty_def feature_polygons_def)
qed

text \<open>
  C8. The loader is to pass over, without raising, every feature that is neither a
  \<^verbatim>\<open>Polygon\<close> nor a \<^verbatim>\<open>MultiPolygon\<close>. It does not when the feature's
  \<^verbatim>\<open>geometry\<close> is \<^verbatim>\<open>null\<close>: for the document of one such feature followed by a
  square \<^verbatim>\<open>Polygon\<close>, lines 51 and 52 raise \<^verbatim>\<open>AttributeError\<close> and no polygon set
  is built. The same document with the \<^verbatim>\<open>geometry\<close> key left out gives the square, and
  the event loop of line 111 reads a \<^verbatim>\<open>null\<close> geometry as no coordinates.
\<close>

theorem null_geometry_raises:
  "load_polygons (Document (Some
     [\<lparr>geometry = Null, properties = ()\<rparr>,
      \<lparr>geometry = Value (Polygon [[(0, 0), (4, 0), (4, 4), (0 :: rat, 4 :: rat)]]),
       properties = ()\<rparr>]))
   = Inl AttributeError
   \<and> boundary_loader (Document (Some
     [\<lparr>geometry = Null, properties = ()\<rparr>,
      \<lparr>geometry = Value (Polygon [[(0, 0), (4, 0), (4, 4), (0 :: rat, 4 :: rat)]]),
       properties = ()\<rparr>]))
   = Inl AttributeError
   \<and> load_polygons (Document (Some
     [\<lparr>geometry = Missing, properties = ()\<rparr>,
      \<lparr>geometry = Value (Polygon [[(0, 0), (4, 0), (4, 4), (0 :: rat, 4 :: rat)]]),
       properties = ()\<rparr>]))
   = Inr [[[(0, 0), (4, 0), (4, 4), (0, 4)]]]
   \<and> candidate_coords \<lparr>geometry = Null, properties = ()\<rparr> = ([] :: rat list)"
  by (simp add: load_polygons_def boundary_loader_def features_or_empty_def load_feature_def
      candidate_coords_def)

text \<open>
  C9 (as amended). When the polygon set the loader built has no vertex at all, the
  bounding-box computation raises the \<^verbatim>\<open>ValueError\<close> of \<^verbatim>\<open>min()\<close> on an empty
  sequence; the set itself is not empty, so this is not the \<^verbatim>\<open>SystemExit\<close> of the
  empty polygon set.
\<close>

theorem bounding_box_zero_vertices:
  assumes "load_polygons data = Inr polygons" and "vertices polygons = {}"
  shows "polygons \<noteq> [] \<and> bounding_box polygons = Inl ValueError
   \<and> boundary_loader data = Inl ValueError"
  using assms
  by (simp add: load_polygons_nonempty bounding_box_no_vertex boundary_loader_def)

theorem bounding_box_zero_vertices_witness:
  "load_polygons (Document (Some
     [\<lparr>geometry = Value (Polygon [[] :: rat ring]), properties = ()\<rparr>])) = Inr [[[]]]
   \<and> vertices [[[] :: rat ring]] = {}
   \<and> boundary_loader (Document (Some
     [\<lparr>geometry = Value (Polygon [[] :: rat ring]), properties = ()\<rparr>])) = Inl ValueError"
proof -
  let ?d = "Document (Some [\<lparr>geometry = Value (Polygon [[] :: rat ring]), properties = ()\<rparr>])"
  have l: "load_polygons ?d = Inr [[[]]]"
    by (simp add: load_polygons_def features_or_empty_def load_feature_def)
  have v: "vertices [[[] :: rat ring]] = {}"
    by (simp add: vertices_def)
  from bounding_box_zero_vertices [OF l v] l v show ?thesis
    by simp
qed

text \<open>
  The claim as first stated, that the zero-vertex case fails like the empty polygon
  set, does not hold: a \<^verbatim>\<open>Polygon\<close> feature whose only ring is empty gives the polygon
  set \<open>[[[]]]\<close>, and the run ends with \<^verbatim>\<open>ValueError\<close>, while the empty document ends
  with \<^verbatim>\<open>SystemExit\<close>.
\<close>

theorem zero_vertices_not_system_exit:
  "load_polygons (Document (Some
     [\<lparr>geometry = Value (Polygon [[] :: rat ring]), properties = ()\<rparr>])) = Inr [[[]]]
   \<and> vertices [[[] :: rat ring]] = {}
   \<and> boundary_loader (Document (Some
     [\<lparr>geometry = Value (Polygon [[] :: rat ring]), properties = ()\<rparr>])) = Inl ValueError
   \<and> boundary_loader (Document (Some ([] :: (rat geometry, unit) feature list)))
       = Inl (SystemExit ''No polygon geometry found in admin0.json'')
   \<and> boundary_loader (Document (Some
     [\<lparr>geometry = Value (Polygon [[] :: rat ring]), properties = ()\<rparr>]))
       \<noteq> Inl (SystemExit ''No polygon geometry found in admin0.json'')"
  by (simp add: load_polygons_def features_or_empty_def load_feature_def vertices_def
      boundary_loader_def bounding_box_def all_pts_def)

end
